theory Spec2Isabelle
  imports Complex_Main
begin

section \<open>Python values read by the sensor\<close>

text \<open>
  The sensor of \<^verbatim>\<open>sensor.py\<close> works on whatever \<^verbatim>\<open>response.json()\<close> hands back, so the
  document is modelled as an arbitrary decoded JSON value, not as a typed forecast. A decoded
  float is represented by the exact rational it denotes (Python compares a float with an int
  exactly); \<open>NonFinite\<close> stands for the values \<^verbatim>\<open>NaN\<close>, \<^verbatim>\<open>Infinity\<close> and \<^verbatim>\<open>-Infinity\<close>
  that Python's decoder accepts. A dict is an association list in insertion order, read
  with \<open>map_of\<close>.
\<close>

datatype pyfloat = Finite rat | NonFinite

datatype json =
    JNull
  | JBool bool
  | JInt int
  | JFloat pyfloat
  | JStr string
  | JList "json list"
  | JObj "(string \<times> json) list"

text \<open>The exception classes that the code raises, catches or lets through.\<close>

datatype exn = KeyError | TypeError | ValueError | OverflowError | RequestException

text \<open>Truth value of a decoded value, as tested by \<^verbatim>\<open>if result:\<close>.\<close>

fun truthy :: "json \<Rightarrow> bool" where
  "truthy JNull = False"
| "truthy (JBool b) = b"
| "truthy (JInt n) = (n \<noteq> 0)"
| "truthy (JFloat f) = (f \<noteq> Finite 0)"
| "truthy (JStr s) = (s \<noteq> [])"
| "truthy (JList xs) = (xs \<noteq> [])"
| "truthy (JObj kvs) = (kvs \<noteq> [])"

text \<open>
  \<^verbatim>\<open>obj[key]\<close> with a string key: a dict raises \<^verbatim>\<open>KeyError\<close> on a missing key, every
  other decoded value (\<^verbatim>\<open>None\<close>, bool, number, str, list) raises \<^verbatim>\<open>TypeError\<close>.
\<close>

fun getitem :: "json \<Rightarrow> string \<Rightarrow> exn + json" where
  "getitem (JObj kvs) k = (case map_of kvs k of None \<Rightarrow> Inl KeyError | Some v \<Rightarrow> Inr v)"
| "getitem JNull k = Inl TypeError"
| "getitem (JBool b) k = Inl TypeError"
| "getitem (JInt n) k = Inl TypeError"
| "getitem (JFloat f) k = Inl TypeError"
| "getitem (JStr s) k = Inl TypeError"
| "getitem (JList xs) k = Inl TypeError"

text \<open>
  The elements a \<^verbatim>\<open>for\<close> loop visits: the items of a list, the keys of a dict, the
  characters of a str; anything else is not iterable.
\<close>

fun iter :: "json \<Rightarrow> exn + json list" where
  "iter (JList xs) = Inr xs"
| "iter (JObj kvs) = Inr (map (\<lambda>kv. JStr (fst kv)) kvs)"
| "iter (JStr s) = Inr (map (\<lambda>c. JStr [c]) s)"
| "iter JNull = Inl TypeError"
| "iter (JBool b) = Inl TypeError"
| "iter (JInt n) = Inl TypeError"
| "iter (JFloat f) = Inl TypeError"

text \<open>\<^verbatim>\<open>value == partregion_id\<close>, the right-hand side being the configured integer.\<close>

fun eq_int :: "json \<Rightarrow> int \<Rightarrow> bool" where
  "eq_int (JInt n) i = (n = i)"
| "eq_int (JBool b) i = ((if b then 1 else 0) = i)"
| "eq_int (JFloat (Finite r)) i = (r = of_int i)"
| "eq_int (JFloat NonFinite) i = False"
| "eq_int JNull i = False"
| "eq_int (JStr s) i = False"
| "eq_int (JList xs) i = False"
| "eq_int (JObj kvs) i = False"

section \<open>The lookup tables\<close>

definition pollen_mapping :: "(string \<times> string list) list" where
  "pollen_mapping =
     [(''ambrosia'', [''Ambrosia'']),
      (''grass'', [''Graeser'']),
      (''tree'', [''Beifuss'', ''Birke'', ''Erle'', ''Esche'', ''Hasel'', ''Roggen''])]"

definition level_mapping :: "(string \<times> int) list" where
  "level_mapping =
     [(''0'', 0), (''0-1'', 1), (''1'', 2), (''1-2'', 3), (''2'', 4), (''2-3'', 5), (''3'', 6)]"

definition description_mapping :: "(int \<times> string) list" where
  "description_mapping =
     [(0, ''no level of exposure''),
      (1, ''no to low level of exposure''),
      (2, ''low level of exposure''),
      (3, ''low to medium level of exposure''),
      (4, ''medium level of exposure''),
      (5, ''medium to high level exposure''),
      (6, ''high level of exposure'')]"

text \<open>\<^verbatim>\<open>pollen_mapping.get(pollen_category, [])\<close>\<close>

definition pollen_mapping_get :: "string \<Rightarrow> string list" where
  "pollen_mapping_get pollen_category =
     (case map_of pollen_mapping pollen_category of None \<Rightarrow> [] | Some species \<Rightarrow> species)"

text \<open>
  \<^verbatim>\<open>level_mapping.get(band, -1)\<close>. The keys of the table are strings, so a band that is a
  number, a bool or \<^verbatim>\<open>None\<close> is simply absent; a list or a dict is unhashable and makes
  \<^verbatim>\<open>dict.get\<close> raise \<^verbatim>\<open>TypeError\<close>.
\<close>

definition rank :: "string \<Rightarrow> int" where
  "rank band = (case map_of level_mapping band of None \<Rightarrow> - 1 | Some r \<Rightarrow> r)"

fun level_mapping_get :: "json \<Rightarrow> exn + int" where
  "level_mapping_get (JStr band) = Inr (rank band)"
| "level_mapping_get (JList xs) = Inl TypeError"
| "level_mapping_get (JObj kvs) = Inl TypeError"
| "level_mapping_get JNull = Inr (- 1)"
| "level_mapping_get (JBool b) = Inr (- 1)"
| "level_mapping_get (JInt n) = Inr (- 1)"
| "level_mapping_get (JFloat f) = Inr (- 1)"

text \<open>\<^verbatim>\<open>__get_description\<close>\<close>

definition get_description :: "int \<Rightarrow> string" where
  "get_description level =
     (case map_of description_mapping level of
        None \<Rightarrow> ''unknown level of exposure''
      | Some description \<Rightarrow> description)"

section \<open>The DWD Pollen API\<close>

text \<open>
  What the one HTTP GET of \<^verbatim>\<open>get_exposure\<close> meets: either \<^verbatim>\<open>requests.get\<close> raises a
  \<^verbatim>\<open>RequestException\<close> (name resolution, refused or reset connection, timeout, TLS, too
  many redirects), or a response arrives, with its status code and the outcome of decoding
  its body as JSON (\<open>None\<close>: the body is not valid JSON).
\<close>

record response =
  status_code :: nat
  json_body :: "json option"

datatype exchange = NoResponse | Responded response

datatype logmsg = ErrorFetching | ErrorParsing | ErroneousResult | EmptyResult

definition requests_get :: "exchange \<Rightarrow> exn + response" where
  "requests_get x = (case x of NoResponse \<Rightarrow> Inl RequestException | Responded r \<Rightarrow> Inr r)"

text \<open>
  \<^verbatim>\<open>Response.raise_for_status()\<close> of the requests library raises \<^verbatim>\<open>HTTPError\<close>, a
  \<^verbatim>\<open>RequestException\<close>, for the client and server error codes 400 to 599 and returns for
  every other status code.
\<close>

definition raise_for_status :: "response \<Rightarrow> exn + unit" where
  "raise_for_status r =
     (if 400 \<le> status_code r \<and> status_code r < 600 then Inl RequestException else Inr ())"

text \<open>\<^verbatim>\<open>Response.json()\<close>: the decoding error is a \<^verbatim>\<open>ValueError\<close>.\<close>

definition response_json :: "response \<Rightarrow> exn + json" where
  "response_json r = (case json_body r of None \<Rightarrow> Inl ValueError | Some d \<Rightarrow> Inr d)"

text \<open>
  \<^verbatim>\<open>DwdPollenApi.get_exposure\<close>: the three statements of the \<^verbatim>\<open>try\<close> block, then the two
  handlers, each of which logs one error and returns \<^verbatim>\<open>None\<close>. The result is the lines
  logged and the value returned, or the exception that escapes.
\<close>

definition get_exposure :: "exchange \<Rightarrow> exn + (logmsg list \<times> json)" where
  "get_exposure x =
     (case (case requests_get x of
              Inl e \<Rightarrow> Inl e
            | Inr r \<Rightarrow> (case raise_for_status r of
                          Inl e \<Rightarrow> Inl e
                        | Inr u \<Rightarrow> response_json r)) of
        Inr document \<Rightarrow> Inr ([], document)
      | Inl ex \<Rightarrow>
          if ex = RequestException then Inr ([ErrorFetching], JNull)
          else if ex = ValueError then Inr ([ErrorParsing], JNull)
          else Inl ex)"

section \<open>Dates\<close>

text \<open>
  A \<^verbatim>\<open>datetime\<close> is its date, as the proleptic Gregorian ordinal (\<^verbatim>\<open>date.toordinal()\<close>,
  1 for 0001-01-01), and its time of day. Subtracting \<^verbatim>\<open>timedelta(days=1)\<close> raises
  \<^verbatim>\<open>OverflowError\<close> below \<^verbatim>\<open>datetime.min\<close>.
\<close>

datatype datetime = Datetime (date: int) (time_of_day: nat)

definition minus_one_day :: "datetime \<Rightarrow> exn + datetime" where
  "minus_one_day t =
     (if date t \<le> 1 then Inl OverflowError else Inr (Datetime (date t - 1) (time_of_day t)))"

text \<open>
  \<^verbatim>\<open>datetime.strptime(value, "%Y-%m-%d %H:%M Uhr")\<close>. The parser of the standard library is
  a parameter \<open>parse\<close> (\<open>None\<close>: the string does not match the format, \<^verbatim>\<open>ValueError\<close>);
  an argument that is not a str is a \<^verbatim>\<open>TypeError\<close>.
\<close>

fun strptime :: "(string \<Rightarrow> datetime option) \<Rightarrow> json \<Rightarrow> exn + datetime" where
  "strptime parse (JStr s) = (case parse s of None \<Rightarrow> Inl ValueError | Some t \<Rightarrow> Inr t)"
| "strptime parse JNull = Inl TypeError"
| "strptime parse (JBool b) = Inl TypeError"
| "strptime parse (JInt n) = Inl TypeError"
| "strptime parse (JFloat f) = Inl TypeError"
| "strptime parse (JList xs) = Inl TypeError"
| "strptime parse (JObj kvs) = Inl TypeError"

section \<open>The sensor\<close>

text \<open>
  \<^verbatim>\<open>__find_partregion\<close>: the loop returns the first element whose \<^verbatim>\<open>partregion_id\<close>
  equals the requested one; when it runs off the end, the function returns \<^verbatim>\<open>None\<close>.
\<close>

fun find_partregion_loop :: "json list \<Rightarrow> int \<Rightarrow> exn + json" where
  "find_partregion_loop [] partregion_id = Inr JNull"
| "find_partregion_loop (partregion # rest) partregion_id =
     (case getitem partregion ''partregion_id'' of
        Inl e \<Rightarrow> Inl e
      | Inr v \<Rightarrow> if eq_int v partregion_id then Inr partregion
                 else find_partregion_loop rest partregion_id)"

definition find_partregion :: "json \<Rightarrow> int \<Rightarrow> exn + json" where
  "find_partregion partregion_list partregion_id =
     (case iter partregion_list of
        Inl e \<Rightarrow> Inl e
      | Inr partregions \<Rightarrow> find_partregion_loop partregions partregion_id)"

text \<open>
  \<^verbatim>\<open>__calculate_level\<close>. One turn of the loop is
  \<^verbatim>\<open>level_mapping.get(pollen_list[pollen_type][day], -1)\<close>; the loop collects the levels in
  the order of the species and stops at the first exception; the result is
  \<^verbatim>\<open>max(pollen_levels, default=-1)\<close>.
\<close>

definition raw_band :: "json \<Rightarrow> string \<Rightarrow> string \<Rightarrow> exn + json" where
  "raw_band pollen_list pollen_type day =
     (case getitem pollen_list pollen_type of
        Inl e \<Rightarrow> Inl e
      | Inr days \<Rightarrow> getitem days day)"

definition species_level :: "json \<Rightarrow> string \<Rightarrow> string \<Rightarrow> exn + int" where
  "species_level pollen_list pollen_type day =
     (case raw_band pollen_list pollen_type day of
        Inl e \<Rightarrow> Inl e
      | Inr band \<Rightarrow> level_mapping_get band)"

fun pollen_levels :: "json \<Rightarrow> string list \<Rightarrow> string \<Rightarrow> exn + int list" where
  "pollen_levels pollen_list [] day = Inr []"
| "pollen_levels pollen_list (pollen_type # rest) day =
     (case species_level pollen_list pollen_type day of
        Inl e \<Rightarrow> Inl e
      | Inr level \<Rightarrow> (case pollen_levels pollen_list rest day of
                        Inl e \<Rightarrow> Inl e
                      | Inr levels \<Rightarrow> Inr (level # levels)))"

fun max_default :: "int list \<Rightarrow> int \<Rightarrow> int" where
  "max_default [] d = d"
| "max_default (x # xs) d = fold max xs x"

definition calculate_level :: "json \<Rightarrow> string \<Rightarrow> string \<Rightarrow> exn + int" where
  "calculate_level pollen_list pollen_category day =
     (case pollen_levels pollen_list (pollen_mapping_get pollen_category) day of
        Inl e \<Rightarrow> Inl e
      | Inr levels \<Rightarrow> Inr (max_default levels (- 1)))"

text \<open>
  The state of a \<^verbatim>\<open>DwdPollenSensor\<close>. An attribute holds a decoded value of the feed, a
  string of the program, or a \<^verbatim>\<open>datetime\<close>.
\<close>

datatype pyval = PJson json | PDatetime datetime

record sensor =
  self_name :: string
  self_partregion_id :: int
  self_pollen_type :: string
  self_state :: "int option"
  self_attributes :: "string \<rightharpoonup> pyval"

definition ATTR_DESCRIPTION :: string where "ATTR_DESCRIPTION = ''description''"
definition ATTR_LAST_UPDATE :: string where "ATTR_LAST_UPDATE = ''last_update''"
definition ATTR_NEXT_UPDATE :: string where "ATTR_NEXT_UPDATE = ''next_update''"
definition ATTR_PARTREGION_NAME :: string where "ATTR_PARTREGION_NAME = ''partregion_name''"
definition ATTR_REGION_NAME :: string where "ATTR_REGION_NAME = ''region_name''"

text \<open>\<^verbatim>\<open>ATTR_ATTRIBUTION\<close> comes from \<^verbatim>\<open>homeassistant.const\<close>.\<close>

definition ATTR_ATTRIBUTION :: string where "ATTR_ATTRIBUTION = ''attribution''"

definition ATTRIBUTION :: string where
  "ATTRIBUTION = ''Data provided by Deutscher Wetterdienst''"

text \<open>
  The local dict \<^verbatim>\<open>exposure\<close> of \<^verbatim>\<open>update\<close>: each of its five keys is absent (\<open>None\<close>)
  until the \<^verbatim>\<open>try\<close> block stores it.
\<close>

record exposure =
  exposure_level :: "int option"
  exposure_last_update :: "datetime option"
  exposure_next_update :: "datetime option"
  exposure_region_name :: "json option"
  exposure_partregion_name :: "json option"

definition empty_exposure :: exposure where
  "empty_exposure =
     \<lparr>exposure_level = None, exposure_last_update = None, exposure_next_update = None,
      exposure_region_name = None, exposure_partregion_name = None\<rparr>"

text \<open>\<^verbatim>\<open>if exposure:\<close> holds as soon as the dict has a key.\<close>

definition exposure_nonempty :: "exposure \<Rightarrow> bool" where
  "exposure_nonempty e \<longleftrightarrow>
     exposure_level e \<noteq> None \<or> exposure_last_update e \<noteq> None \<or> exposure_next_update e \<noteq> None
     \<or> exposure_region_name e \<noteq> None \<or> exposure_partregion_name e \<noteq> None"

text \<open>
  The \<^verbatim>\<open>if\<close>/\<^verbatim>\<open>elif\<close> chain of \<^verbatim>\<open>update\<close> that chooses the day key from the date of
  \<^verbatim>\<open>last_update\<close>, and the call \<^verbatim>\<open>__calculate_level(partregion["Pollen"], ..., day)\<close> of
  its first three branches.
\<close>

definition level_for_day :: "json \<Rightarrow> string \<Rightarrow> string \<Rightarrow> exn + int" where
  "level_for_day partregion pollen_type day =
     (case getitem partregion ''Pollen'' of
        Inl e \<Rightarrow> Inl e
      | Inr pollen_list \<Rightarrow> calculate_level pollen_list pollen_type day)"

definition choose_level ::
  "datetime \<Rightarrow> datetime \<Rightarrow> datetime \<Rightarrow> datetime \<Rightarrow> json \<Rightarrow> string \<Rightarrow> exn + int" where
  "choose_level today yesterday before_yesterday last_update partregion pollen_type =
     (if date last_update = date today then level_for_day partregion pollen_type ''today''
      else if date last_update = date yesterday
        then level_for_day partregion pollen_type ''tomorrow''
      else if date last_update = date before_yesterday
        then level_for_day partregion pollen_type ''dayafter_to''
      else Inr (- 1))"

text \<open>
  The body of the \<^verbatim>\<open>try\<close> statement of \<^verbatim>\<open>update\<close>. It yields the dict \<^verbatim>\<open>exposure\<close> as it
  stands when the block is left, and the exception that left it, if any: the level and the
  two timestamps are stored before the two names of the region are read.
\<close>

definition try_block ::
  "(string \<Rightarrow> datetime option) \<Rightarrow> datetime \<Rightarrow> int \<Rightarrow> string \<Rightarrow> json
     \<Rightarrow> exposure \<times> exn option" where
  "try_block parse today partregion_id pollen_type result =
     (case minus_one_day today of
        Inl e \<Rightarrow> (empty_exposure, Some e)
      | Inr yesterday \<Rightarrow>
     (case minus_one_day yesterday of
        Inl e \<Rightarrow> (empty_exposure, Some e)
      | Inr before_yesterday \<Rightarrow>
     (case getitem result ''last_update'' of
        Inl e \<Rightarrow> (empty_exposure, Some e)
      | Inr raw_last_update \<Rightarrow>
     (case strptime parse raw_last_update of
        Inl e \<Rightarrow> (empty_exposure, Some e)
      | Inr last_update \<Rightarrow>
     (case getitem result ''next_update'' of
        Inl e \<Rightarrow> (empty_exposure, Some e)
      | Inr raw_next_update \<Rightarrow>
     (case strptime parse raw_next_update of
        Inl e \<Rightarrow> (empty_exposure, Some e)
      | Inr next_update \<Rightarrow>
     (case getitem result ''content'' of
        Inl e \<Rightarrow> (empty_exposure, Some e)
      | Inr content \<Rightarrow>
     (case find_partregion content partregion_id of
        Inl e \<Rightarrow> (empty_exposure, Some e)
      | Inr partregion \<Rightarrow>
     (case choose_level today yesterday before_yesterday last_update partregion pollen_type of
        Inl e \<Rightarrow> (empty_exposure, Some e)
      | Inr level \<Rightarrow>
     (let exposure = empty_exposure
            \<lparr>exposure_level := Some level,
             exposure_last_update := Some last_update,
             exposure_next_update := Some next_update\<rparr>
      in case getitem partregion ''region_name'' of
           Inl e \<Rightarrow> (exposure, Some e)
         | Inr region_name \<Rightarrow>
        (case getitem partregion ''partregion_name'' of
           Inl e \<Rightarrow> (exposure\<lparr>exposure_region_name := Some region_name\<rparr>, Some e)
         | Inr partregion_name \<Rightarrow>
             (exposure\<lparr>exposure_region_name := Some region_name,
                       exposure_partregion_name := Some partregion_name\<rparr>, None))))))))))))"

text \<open>
  \<^verbatim>\<open>round(level / 6 * 100)\<close>. Python's \<^verbatim>\<open>round\<close> rounds a tie to the even neighbour. The
  quotient is computed here on exact rationals; for the levels -1 to 6, the only ones
  \<^verbatim>\<open>update\<close> can store, the double-precision computation of Python gives the same integers.
\<close>

definition py_round :: "rat \<Rightarrow> int" where
  "py_round x =
     (let f = \<lfloor>x\<rfloor>; r = x - of_int f
      in if r < 1 / 2 then f else if 1 / 2 < r then f + 1 else if even f then f else f + 1)"

definition percentage :: "int \<Rightarrow> int" where
  "percentage level = py_round (of_int level / 6 * 100)"

text \<open>
  The last statement of \<^verbatim>\<open>update\<close>, \<^verbatim>\<open>if exposure: ...\<close>, outside the \<^verbatim>\<open>try\<close>: reading a
  key that \<^verbatim>\<open>exposure\<close> lacks raises \<^verbatim>\<open>KeyError\<close> and leaves the assignments made so far.
\<close>

definition set_attribute :: "string \<Rightarrow> pyval \<Rightarrow> sensor \<Rightarrow> sensor" where
  "set_attribute key v self = self\<lparr>self_attributes := (self_attributes self)(key \<mapsto> v)\<rparr>"

definition publish :: "exposure \<Rightarrow> sensor \<Rightarrow> sensor \<times> exn option" where
  "publish exposure self =
     (if \<not> exposure_nonempty exposure then (self, None)
      else
     (case exposure_level exposure of
        None \<Rightarrow> (self, Some KeyError)
      | Some level \<Rightarrow>
     (let self1 = (if 0 \<le> level then self\<lparr>self_state := Some (percentage level)\<rparr> else self);
          self2 = set_attribute ATTR_DESCRIPTION (PJson (JStr (get_description level))) self1
      in case exposure_last_update exposure of
           None \<Rightarrow> (self2, Some KeyError)
         | Some last_update \<Rightarrow>
     (let self3 = set_attribute ATTR_LAST_UPDATE (PDatetime last_update) self2
      in case exposure_next_update exposure of
           None \<Rightarrow> (self3, Some KeyError)
         | Some next_update \<Rightarrow>
     (let self4 = set_attribute ATTR_NEXT_UPDATE (PDatetime next_update) self3
      in case exposure_region_name exposure of
           None \<Rightarrow> (self4, Some KeyError)
         | Some region_name \<Rightarrow>
     (let self5 = set_attribute ATTR_REGION_NAME (PJson region_name) self4
      in case exposure_partregion_name exposure of
           None \<Rightarrow> (self5, Some KeyError)
         | Some partregion_name \<Rightarrow>
     (let self6 = set_attribute ATTR_PARTREGION_NAME (PJson partregion_name) self5
      in (set_attribute ATTR_ATTRIBUTION (PJson (JStr ATTRIBUTION)) self6, None))))))))"

text \<open>
  \<^verbatim>\<open>DwdPollenSensor.update\<close>, one run of its body (the \<^verbatim>\<open>Throttle\<close> decorator decides
  whether the body runs and lets its exceptions through). The arguments are the world the
  run meets: the parser behind \<^verbatim>\<open>strptime\<close>, the clock read by \<^verbatim>\<open>datetime.today()\<close> and
  the outcome of the GET. The result is the sensor afterwards, the lines logged, and the
  exception that escapes \<^verbatim>\<open>update\<close>, if any. Only \<^verbatim>\<open>KeyError\<close> is caught.
\<close>

definition update ::
  "(string \<Rightarrow> datetime option) \<Rightarrow> datetime \<Rightarrow> exchange \<Rightarrow> sensor
     \<Rightarrow> sensor \<times> logmsg list \<times> exn option" where
  "update parse today x self =
     (let self0 = self\<lparr>self_state := None, self_attributes := Map.empty\<rparr>
      in case get_exposure x of
           Inl e \<Rightarrow> (self0, [], Some e)
         | Inr (logged, result) \<Rightarrow>
             if truthy result then
               (case try_block parse today (self_partregion_id self) (self_pollen_type self)
                       result of
                  (exposure, None) \<Rightarrow>
                    (case publish exposure self0 of
                       (self', raised) \<Rightarrow> (self', logged, raised))
                | (exposure, Some ex) \<Rightarrow>
                    if ex = KeyError then
                      (case publish exposure self0 of
                         (self', raised) \<Rightarrow> (self', logged @ [ErroneousResult], raised))
                    else (self0, logged, Some ex))
             else
               (case publish empty_exposure self0 of
                  (self', raised) \<Rightarrow> (self', logged @ [EmptyResult], raised)))"

section \<open>Sample inputs\<close>

text \<open>
  A feed of one sub-region, issued on 2024-05-02 (ordinal 739008), a sensor configured for
  that sub-region and for grass pollen which still shows an older reading, and a parser
  that knows the two timestamps of the feed. The second feed is the same with the key
  \<^verbatim>\<open>region_name\<close> left out of the sub-region.
\<close>

definition example_parse :: "string \<Rightarrow> datetime option" where
  "example_parse s =
     (if s = ''2024-05-02 11:00 Uhr'' then Some (Datetime 739008 660)
      else if s = ''2024-05-03 11:00 Uhr'' then Some (Datetime 739009 660)
      else None)"

definition example_region :: json where
  "example_region =
     JObj [(''partregion_id'', JInt 11),
           (''region_name'', JStr ''Schleswig-Holstein und Hamburg''),
           (''partregion_name'', JStr ''Inseln und Marschen''),
           (''Pollen'',
            JObj [(''Graeser'',
                   JObj [(''today'', JStr ''1-2''), (''tomorrow'', JStr ''2''),
                         (''dayafter_to'', JStr ''0'')])])]"

definition example_document :: json where
  "example_document =
     JObj [(''last_update'', JStr ''2024-05-02 11:00 Uhr''),
           (''next_update'', JStr ''2024-05-03 11:00 Uhr''),
           (''content'', JList [example_region])]"

definition nameless_region :: json where
  "nameless_region =
     JObj [(''partregion_id'', JInt 11),
           (''partregion_name'', JStr ''Inseln und Marschen''),
           (''Pollen'',
            JObj [(''Graeser'',
                   JObj [(''today'', JStr ''1-2''), (''tomorrow'', JStr ''2''),
                         (''dayafter_to'', JStr ''0'')])])]"

definition nameless_document :: json where
  "nameless_document =
     JObj [(''last_update'', JStr ''2024-05-02 11:00 Uhr''),
           (''next_update'', JStr ''2024-05-03 11:00 Uhr''),
           (''content'', JList [nameless_region])]"

definition example_sensor :: sensor where
  "example_sensor =
     \<lparr>self_name = ''DWD Pollen'', self_partregion_id = 11, self_pollen_type = ''grass'',
      self_state = Some 17,
      self_attributes = [ATTR_DESCRIPTION \<mapsto> PJson (JStr ''no to low level of exposure'')]\<rparr>"

definition ok_response :: "json \<Rightarrow> exchange" where
  "ok_response document = Responded \<lparr>status_code = 200, json_body = Some document\<rparr>"

text \<open>
  The pollen mapping of the example of the specification, with three tree species only, and
  the same mapping with the other three tree species present at band "0".
\<close>

definition three_species_pollen :: json where
  "three_species_pollen =
     JObj [(''Beifuss'', JObj [(''today'', JStr ''1'')]),
           (''Birke'', JObj [(''today'', JStr ''3'')]),
           (''Erle'', JObj [(''today'', JStr ''0'')])]"

definition six_species_pollen :: json where
  "six_species_pollen =
     JObj [(''Beifuss'', JObj [(''today'', JStr ''1'')]),
           (''Birke'', JObj [(''today'', JStr ''3'')]),
           (''Erle'', JObj [(''today'', JStr ''0'')]),
           (''Esche'', JObj [(''today'', JStr ''0'')]),
           (''Hasel'', JObj [(''today'', JStr ''0'')]),
           (''Roggen'', JObj [(''today'', JStr ''0'')])]"

definition tree_bands :: "string \<Rightarrow> string" where
  "tree_bands species =
     (if species = ''Beifuss'' then ''1'' else if species = ''Birke'' then ''3'' else ''0'')"

section \<open>Auxiliary facts\<close>

lemmas example_defs = example_parse_def example_region_def example_document_def
  example_sensor_def ok_response_def

lemmas model_defs = update_def get_exposure_def requests_get_def raise_for_status_def
  response_json_def try_block_def minus_one_day_def find_partregion_def choose_level_def
  level_for_day_def calculate_level_def pollen_mapping_get_def pollen_mapping_def
  species_level_def raw_band_def rank_def level_mapping_def publish_def exposure_nonempty_def
  empty_exposure_def set_attribute_def get_description_def description_mapping_def

subsection \<open>Levels\<close>

lemma max_default_Max: "max_default xs d = (if xs = [] then d else Max (set xs))"
proof (cases xs)
  case Nil
  then show ?thesis by simp
next
  case (Cons y ys)
  have "fold max ys y = Max (set (y # ys))"
    using Max.set_eq_fold [of y ys] by simp
  with Cons show ?thesis by simp
qed

lemma pollen_levels_map:
  "\<forall>sp \<in> set species. raw_band pl sp day = Inr (JStr (band sp))
   \<Longrightarrow> pollen_levels pl species day = Inr (map (\<lambda>sp. rank (band sp)) species)"
  by (induction species) (simp_all add: species_level_def)

lemma pollen_levels_missing:
  "\<forall>sp \<in> set species. getitem pl sp = Inl KeyError \<or> raw_band pl sp day = Inr (JStr (band sp))
   \<Longrightarrow> \<exists>sp \<in> set species. getitem pl sp = Inl KeyError
   \<Longrightarrow> pollen_levels pl species day = Inl KeyError"
proof (induction species)
  case Nil
  then show ?case by simp
next
  case (Cons sp species)
  show ?case
  proof (cases "getitem pl sp = Inl KeyError")
    case True
    then show ?thesis by (simp add: species_level_def raw_band_def)
  next
    case False
    with Cons.prems have b: "raw_band pl sp day = Inr (JStr (band sp))"
      and ex: "\<exists>sp \<in> set species. getitem pl sp = Inl KeyError" by auto
    from Cons.prems have "\<forall>sp \<in> set species.
        getitem pl sp = Inl KeyError \<or> raw_band pl sp day = Inr (JStr (band sp))" by simp
    from Cons.IH [OF this ex] b show ?thesis by (simp add: species_level_def)
  qed
qed

text \<open>Every level that \<^verbatim>\<open>__calculate_level\<close> returns lies between -1 and 6.\<close>

lemma rank_range: "- 1 \<le> rank band \<and> rank band \<le> 6"
  by (simp add: rank_def level_mapping_def)

lemma level_mapping_get_range: "level_mapping_get v = Inr l \<Longrightarrow> - 1 \<le> l \<and> l \<le> 6"
  using rank_range by (cases v) auto

lemma pollen_levels_range:
  "pollen_levels pl species day = Inr ls \<Longrightarrow> \<forall>l \<in> set ls. - 1 \<le> l \<and> l \<le> 6"
proof (induction species arbitrary: ls)
  case Nil
  then show ?case by simp
next
  case (Cons sp species)
  from Cons.prems obtain l ls' where l: "species_level pl sp day = Inr l"
    and ls': "pollen_levels pl species day = Inr ls'" and ls: "ls = l # ls'"
    by (auto split: sum.splits)
  from l have "- 1 \<le> l \<and> l \<le> 6"
    by (auto simp add: species_level_def split: sum.splits dest: level_mapping_get_range)
  with Cons.IH [OF ls'] ls show ?case by simp
qed

lemma calculate_level_range:
  assumes "calculate_level pl cat day = Inr l"
  shows "- 1 \<le> l \<and> l \<le> 6"
proof -
  from assms obtain ls where ls: "pollen_levels pl (pollen_mapping_get cat) day = Inr ls"
    and l: "l = max_default ls (- 1)"
    by (auto simp add: calculate_level_def split: sum.splits)
  show ?thesis
  proof (cases "ls = []")
    case True
    with l show ?thesis by simp
  next
    case False
    then have "Max (set ls) \<in> set ls" by simp
    with pollen_levels_range [OF ls] l False show ?thesis
      by (simp add: max_default_Max)
  qed
qed

subsection \<open>The percentage\<close>

text \<open>
  No level is a tie between two integers, so the rounding is the integer division below;
  on the levels 0 to 6 it gives 0, 17, 33, 50, 67, 83 and 100.
\<close>

lemma percentage_div: "percentage level = (100 * level + 3) div 6"
proof -
  define a where "a = 100 * level"
  define m where "m = a mod 6"
  define q where "q = a div 6"
  have a: "a = 6 * q + m" by (simp add: m_def q_def)
  have m: "0 \<le> m" "m < 6" "m \<noteq> 3" unfolding m_def a_def by presburger+
  have x: "(of_int level / 6 * 100 :: rat) = of_int a / of_int 6" by (simp add: a_def)
  have f: "\<lfloor>(of_int a :: rat) / of_int 6\<rfloor> = q"
    unfolding q_def by (rule floor_divide_of_int_eq)
  have r: "(of_int a :: rat) / of_int 6 - of_int q = of_int m / 6"
    unfolding a by (simp add: field_simps)
  have lt: "(of_int m / 6 < (1 / 2 :: rat)) = (m < 3)"
  proof -
    have "(of_int m / 6 < (1 / 2 :: rat)) = ((of_int m :: rat) < of_int 3)"
      by (simp add: field_simps)
    also have "\<dots> = (m < 3)" by (simp only: of_int_less_iff)
    finally show ?thesis .
  qed
  have gt: "((1 / 2 :: rat) < of_int m / 6) = (3 < m)"
  proof -
    have "((1 / 2 :: rat) < of_int m / 6) = ((of_int 3 :: rat) < of_int m)"
      by (simp add: field_simps)
    also have "\<dots> = (3 < m)" by (simp only: of_int_less_iff)
    finally show ?thesis .
  qed
  have "percentage level = (if m < 3 then q else q + 1)"
    unfolding percentage_def py_round_def x Let_def f r lt gt using m by auto
  also have "\<dots> = (100 * level + 3) div 6"
    using m a unfolding a_def [symmetric] by (auto simp: a)
  finally show ?thesis .
qed

lemma percentage_levels: "map percentage [0, 1, 2, 3, 4, 5, 6] = [0, 17, 33, 50, 67, 83, 100]"
  by (simp add: percentage_div)

subsection \<open>The steps of update\<close>

lemma getitem_truthy: "getitem result k = Inr v \<Longrightarrow> truthy result"
  by (cases result) (auto split: option.splits)

lemma example_fetch: "get_exposure (ok_response document) = Inr ([], document)"
  by (simp add: get_exposure_def requests_get_def raise_for_status_def response_json_def
        ok_response_def)

lemma publish_empty: "publish empty_exposure self = (self, None)"
  by (simp add: publish_def exposure_nonempty_def empty_exposure_def)

lemma publish_state:
  "exposure_level exposure = Some level \<Longrightarrow>
   self_state (fst (publish exposure self)) =
     (if 0 \<le> level then Some (percentage level) else self_state self)"
  by (simp add: publish_def exposure_nonempty_def Let_def set_attribute_def split: option.splits)

lemma publish_complete:
  "publish \<lparr>exposure_level = Some level, exposure_last_update = Some last_update,
            exposure_next_update = Some next_update, exposure_region_name = Some region_name,
            exposure_partregion_name = Some partregion_name\<rparr> self
   = ((if 0 \<le> level then self\<lparr>self_state := Some (percentage level)\<rparr> else self)
        \<lparr>self_attributes := (self_attributes self)
           (ATTR_DESCRIPTION \<mapsto> PJson (JStr (get_description level)),
            ATTR_LAST_UPDATE \<mapsto> PDatetime last_update,
            ATTR_NEXT_UPDATE \<mapsto> PDatetime next_update,
            ATTR_REGION_NAME \<mapsto> PJson region_name,
            ATTR_PARTREGION_NAME \<mapsto> PJson partregion_name,
            ATTR_ATTRIBUTION \<mapsto> PJson (JStr ATTRIBUTION))\<rparr>, None)"
  by (simp add: publish_def exposure_nonempty_def Let_def set_attribute_def)

lemma publish_keeps_configuration:
  "publish exposure self = (self', raised) \<Longrightarrow>
   self'\<lparr>self_state := st, self_attributes := attrs\<rparr>
     = self\<lparr>self_state := st, self_attributes := attrs\<rparr>"
  by (auto simp add: publish_def Let_def set_attribute_def split: option.splits if_splits)

lemma update_keeps_configuration:
  "update parse today x self = (self', logged, raised) \<Longrightarrow>
   self'\<lparr>self_state := st, self_attributes := attrs\<rparr>
     = self\<lparr>self_state := st, self_attributes := attrs\<rparr>"
  by (auto simp add: update_def Let_def
           split: sum.splits prod.splits option.splits if_splits
           dest: publish_keeps_configuration [where st = st and attrs = attrs])

lemma update_ignores_snapshot:
  "update parse today x (self\<lparr>self_state := st, self_attributes := attrs\<rparr>)
     = update parse today x self"
  by (simp add: update_def Let_def split: sum.splits prod.splits)

lemma try_block_time_of_day:
  "try_block parse (Datetime d t) pid ptype result
     = try_block parse (Datetime d t') pid ptype result"
  by (simp add: try_block_def minus_one_day_def choose_level_def Let_def split: sum.splits)

lemma try_block_stale:
  assumes "2 < date today"
    and "getitem result ''last_update'' = Inr (JStr lu)" and "parse lu = Some last_update"
    and "getitem result ''next_update'' = Inr (JStr nu)" and "parse nu = Some next_update"
    and "getitem result ''content'' = Inr content"
    and "find_partregion content pid = Inr partregion"
    and "getitem partregion ''region_name'' = Inr region_name"
    and "getitem partregion ''partregion_name'' = Inr partregion_name"
    and "date last_update < date today - 2 \<or> date today < date last_update"
  shows "try_block parse today pid ptype result =
     (\<lparr>exposure_level = Some (- 1), exposure_last_update = Some last_update,
       exposure_next_update = Some next_update, exposure_region_name = Some region_name,
       exposure_partregion_name = Some partregion_name\<rparr>, None)"
  using assms
  by (auto simp add: try_block_def minus_one_day_def choose_level_def empty_exposure_def Let_def)

subsection \<open>Refreshes that publish nothing\<close>

text \<open>
  When the fetch fails, or returns a value that is not truthy, \<^verbatim>\<open>update\<close> returns with
  the state \<^verbatim>\<open>None\<close> and no attribute; so it does when the \<^verbatim>\<open>KeyError\<close> is raised
  before the level is stored.
\<close>

lemma update_falsy_result:
  "get_exposure x = Inr (logged, result) \<Longrightarrow> \<not> truthy result \<Longrightarrow>
   update parse today x self =
     (self\<lparr>self_state := None, self_attributes := Map.empty\<rparr>, logged @ [EmptyResult], None)"
  by (simp add: update_def publish_empty)

lemma update_fetch_failed:
  "x = NoResponse \<or> (\<exists>r. x = Responded r \<and>
       ((400 \<le> status_code r \<and> status_code r < 600) \<or> json_body r = None)) \<Longrightarrow>
   \<exists>logged. update parse today x self =
     (self\<lparr>self_state := None, self_attributes := Map.empty\<rparr>, logged, None)"
  by (auto simp add: update_def publish_empty get_exposure_def requests_get_def
        raise_for_status_def response_json_def)

lemma update_KeyError_before_level:
  "get_exposure x = Inr (logged, result) \<Longrightarrow> truthy result \<Longrightarrow>
   try_block parse today (self_partregion_id self) (self_pollen_type self) result
     = (empty_exposure, Some KeyError) \<Longrightarrow>
   update parse today x self =
     (self\<lparr>self_state := None, self_attributes := Map.empty\<rparr>,
      logged @ [ErroneousResult], None)"
  by (simp add: update_def publish_empty)

subsection \<open>A feed without the configured sub-region\<close>

text \<open>
  When no element of \<^verbatim>\<open>content\<close> has the requested id, \<^verbatim>\<open>__find_partregion\<close> returns
  \<^verbatim>\<open>None\<close>, and the next subscript of it, \<^verbatim>\<open>partregion["Pollen"]\<close> or
  \<^verbatim>\<open>partregion["region_name"]\<close>, raises a \<^verbatim>\<open>TypeError\<close>, which the handler for
  \<^verbatim>\<open>KeyError\<close> does not catch.
\<close>

lemma find_partregion_loop_no_match:
  "\<forall>p \<in> set ps. \<exists>v. getitem p ''partregion_id'' = Inr v \<and> \<not> eq_int v pid
   \<Longrightarrow> find_partregion_loop ps pid = Inr JNull"
  by (induction ps) auto

lemma try_block_no_partregion:
  assumes "2 < date today"
    and "getitem result ''last_update'' = Inr (JStr lu)" and "parse lu = Some last_update"
    and "getitem result ''next_update'' = Inr (JStr nu)" and "parse nu = Some next_update"
    and "getitem result ''content'' = Inr content"
    and "find_partregion content pid = Inr JNull"
  shows "snd (try_block parse today pid ptype result) = Some TypeError"
  using assms
  by (auto simp add: try_block_def minus_one_day_def choose_level_def level_for_day_def Let_def)

lemma update_no_partregion:
  assumes "get_exposure x = Inr (logged, result)"
    and "2 < date today"
    and "getitem result ''last_update'' = Inr (JStr lu)" and "parse lu = Some last_update"
    and "getitem result ''next_update'' = Inr (JStr nu)" and "parse nu = Some next_update"
    and "getitem result ''content'' = Inr (JList ps)"
    and "\<forall>p \<in> set ps. \<exists>v. getitem p ''partregion_id'' = Inr v
           \<and> \<not> eq_int v (self_partregion_id self)"
  shows "update parse today x self =
     (self\<lparr>self_state := None, self_attributes := Map.empty\<rparr>, logged, Some TypeError)"
proof -
  have t: "truthy result" using assms(3) by (rule getitem_truthy)
  have f: "find_partregion (JList ps) (self_partregion_id self) = Inr JNull"
    using find_partregion_loop_no_match [OF assms(8)] by (simp add: find_partregion_def)
  have "snd (try_block parse today (self_partregion_id self) (self_pollen_type self) result)
          = Some TypeError"
    using assms(2-7) f by (rule try_block_no_partregion)
  then obtain exposure where
    "try_block parse today (self_partregion_id self) (self_pollen_type self) result
       = (exposure, Some TypeError)"
    by (cases "try_block parse today (self_partregion_id self) (self_pollen_type self) result")
       simp
  then show ?thesis
    by (simp add: update_def assms(1) t)
qed

section \<open>The claims\<close>

subsection \<open>The band table and the descriptions\<close>

text \<open>
  Claim C3. The band table sends the seven raw bands "0", "0-1", "1", "1-2", "2", "2-3", "3"
  to the ranks 0, 1, 2, 3, 4, 5, 6 in this order, and every other string to rank -1.
\<close>

theorem level_mapping_ranks:
  "map (\<lambda>band. level_mapping_get (JStr band))
       [''0'', ''0-1'', ''1'', ''1-2'', ''2'', ''2-3'', ''3'']
     = map Inr [0, 1, 2, 3, 4, 5, 6]
   \<and> (\<forall>band. band \<notin> set [''0'', ''0-1'', ''1'', ''1-2'', ''2'', ''2-3'', ''3'']
          \<longrightarrow> level_mapping_get (JStr band) = Inr (- 1))"
  by (simp add: rank_def level_mapping_def)

theorem level_mapping_ranks_witness:
  "level_mapping_get (JStr ''4'') = Inr (- 1) \<and> level_mapping_get (JStr ''3-2'') = Inr (- 1)
   \<and> level_mapping_get (JStr []) = Inr (- 1)"
  using level_mapping_ranks by simp

text \<open>
  Claim C6. The description of a rank from 0 to 6 is the entry of the fixed table with seven
  entries, from "no level of exposure" (0) to "high level of exposure" (6); every other
  integer, for example -1, 7 or 100, is described as "unknown level of exposure".
\<close>

theorem get_description_table:
  "map get_description [0, 1, 2, 3, 4, 5, 6] =
     [''no level of exposure'', ''no to low level of exposure'', ''low level of exposure'',
      ''low to medium level of exposure'', ''medium level of exposure'',
      ''medium to high level exposure'', ''high level of exposure'']
   \<and> (\<forall>level. level < 0 \<or> 6 < level
          \<longrightarrow> get_description level = ''unknown level of exposure'')"
  by (auto simp add: get_description_def description_mapping_def)

theorem get_description_table_witness:
  "get_description (- 1) = ''unknown level of exposure''
   \<and> get_description 7 = ''unknown level of exposure''
   \<and> get_description 100 = ''unknown level of exposure''"
  using get_description_table by simp

subsection \<open>The level of a category\<close>

text \<open>
  Claim C2, as the code has it. When every species of the category is present in the pollen
  mapping with a band (a string) for the day key, the level of the category is the maximum
  over its species of the rank of that band, an unrecognised band counting as -1, and a
  category of no species has level -1. A species of the category that is missing from the
  mapping does not count as -1: when one is missing, the species that are present being
  as above, the calculation raises \<^verbatim>\<open>KeyError\<close> and yields no level.
  For the category "tree" on "today", with Beifuss "1", Birke "3", Erle "0" and the other
  three tree species present at "0", the level is 6.
\<close>

theorem calculate_level_max:
  "((\<forall>sp \<in> set (pollen_mapping_get cat). raw_band pl sp day = Inr (JStr (band sp)))
      \<longrightarrow> calculate_level pl cat day =
            Inr (if pollen_mapping_get cat = [] then - 1
                 else Max ((\<lambda>sp. rank (band sp)) ` set (pollen_mapping_get cat))))
   \<and> ((\<forall>sp \<in> set (pollen_mapping_get cat).
          getitem pl sp = Inl KeyError \<or> raw_band pl sp day = Inr (JStr (band sp)))
        \<and> (\<exists>sp \<in> set (pollen_mapping_get cat). getitem pl sp = Inl KeyError)
      \<longrightarrow> calculate_level pl cat day = Inl KeyError)
   \<and> calculate_level six_species_pollen ''tree'' ''today'' = Inr 6"
proof (intro conjI impI)
  assume "\<forall>sp \<in> set (pollen_mapping_get cat). raw_band pl sp day = Inr (JStr (band sp))"
  then have "pollen_levels pl (pollen_mapping_get cat) day
             = Inr (map (\<lambda>sp. rank (band sp)) (pollen_mapping_get cat))"
    by (rule pollen_levels_map)
  then show "calculate_level pl cat day =
            Inr (if pollen_mapping_get cat = [] then - 1
                 else Max ((\<lambda>sp. rank (band sp)) ` set (pollen_mapping_get cat)))"
    by (simp add: calculate_level_def max_default_Max)
next
  assume "(\<forall>sp \<in> set (pollen_mapping_get cat).
          getitem pl sp = Inl KeyError \<or> raw_band pl sp day = Inr (JStr (band sp)))
        \<and> (\<exists>sp \<in> set (pollen_mapping_get cat). getitem pl sp = Inl KeyError)"
  then have "pollen_levels pl (pollen_mapping_get cat) day = Inl KeyError"
    using pollen_levels_missing by blast
  then show "calculate_level pl cat day = Inl KeyError"
    by (simp add: calculate_level_def)
next
  show "calculate_level six_species_pollen ''tree'' ''today'' = Inr 6"
    by (simp add: calculate_level_def pollen_mapping_get_def pollen_mapping_def
          six_species_pollen_def species_level_def raw_band_def rank_def level_mapping_def)
qed

theorem calculate_level_max_witness:
  "calculate_level six_species_pollen ''tree'' ''today''
     = Inr (Max ((\<lambda>sp. rank (tree_bands sp)) ` set (pollen_mapping_get ''tree'')))
   \<and> Max ((\<lambda>sp. rank (tree_bands sp)) ` set (pollen_mapping_get ''tree'')) = 6
   \<and> calculate_level three_species_pollen ''tree'' ''today'' = Inl KeyError"
proof -
  have species: "pollen_mapping_get ''tree''
      = [''Beifuss'', ''Birke'', ''Erle'', ''Esche'', ''Hasel'', ''Roggen'']"
    by (simp add: pollen_mapping_get_def pollen_mapping_def)
  have h1: "\<forall>sp \<in> set (pollen_mapping_get ''tree'').
      raw_band six_species_pollen sp ''today'' = Inr (JStr (tree_bands sp))"
    by (simp add: species six_species_pollen_def raw_band_def tree_bands_def)
  have h2: "(\<forall>sp \<in> set (pollen_mapping_get ''tree'').
        getitem three_species_pollen sp = Inl KeyError
        \<or> raw_band three_species_pollen sp ''today'' = Inr (JStr (tree_bands sp)))
      \<and> (\<exists>sp \<in> set (pollen_mapping_get ''tree'').
            getitem three_species_pollen sp = Inl KeyError)"
    by (simp add: species three_species_pollen_def raw_band_def tree_bands_def)
  have m: "Max ((\<lambda>sp. rank (tree_bands sp)) ` set (pollen_mapping_get ''tree'')) = 6"
    by (simp add: species tree_bands_def rank_def level_mapping_def)
  have n: "pollen_mapping_get ''tree'' \<noteq> []" by (simp add: species)
  show ?thesis
    using calculate_level_max [of "''tree''" six_species_pollen "''today''" tree_bands]
      calculate_level_max [of "''tree''" three_species_pollen "''today''" tree_bands]
      h1 h2 m n
    by simp
qed

text \<open>
  The example of claim C2 as it is stated, with the other tree species absent: the loop
  reaches Esche, which the mapping lacks, and the calculation raises \<^verbatim>\<open>KeyError\<close> instead
  of returning 6.
\<close>

theorem calculate_level_three_species:
  "calculate_level three_species_pollen ''tree'' ''today'' = Inl KeyError"
  by (simp add: calculate_level_def pollen_mapping_get_def pollen_mapping_def
        three_species_pollen_def species_level_def raw_band_def rank_def level_mapping_def)

subsection \<open>The day key\<close>



subsection \<open>The percentage\<close>

text \<open>
  Claim C5. Whenever \<^verbatim>\<open>update\<close> has stored a level, the numeric state it leaves is the
  percentage \<^verbatim>\<open>round(level / 6 * 100)\<close> if the level is at least 0, and \<^verbatim>\<open>None\<close>
  otherwise; level 0 gives 0, level 3 gives 50 and level 6 gives 100.
\<close>

theorem state_is_percentage:
  "(get_exposure x = Inr (logged, result) \<and> truthy result
    \<and> try_block parse today (self_partregion_id self) (self_pollen_type self) result
        = (exposure, raised)
    \<and> (raised = None \<or> raised = Some KeyError)
    \<and> exposure_level exposure = Some level
    \<longrightarrow> self_state (fst (update parse today x self)) =
          (if 0 \<le> level then Some (py_round (of_int level / 6 * 100)) else None))
   \<and> percentage 0 = 0 \<and> percentage 3 = 50 \<and> percentage 6 = 100"
proof (intro conjI impI)
  assume h: "get_exposure x = Inr (logged, result) \<and> truthy result
    \<and> try_block parse today (self_partregion_id self) (self_pollen_type self) result
        = (exposure, raised)
    \<and> (raised = None \<or> raised = Some KeyError)
    \<and> exposure_level exposure = Some level"
  let ?self0 = "self\<lparr>self_state := None, self_attributes := Map.empty\<rparr>"
  from h have l: "exposure_level exposure = Some level" by simp
  have "self_state (fst (update parse today x self)) = self_state (fst (publish exposure ?self0))"
    using h by (auto simp add: update_def split: prod.splits)
  also have "\<dots> = (if 0 \<le> level then Some (percentage level) else None)"
    using publish_state [OF l, of ?self0] by simp
  finally show "self_state (fst (update parse today x self)) =
          (if 0 \<le> level then Some (py_round (of_int level / 6 * 100)) else None)"
    by (simp add: percentage_def)
qed (simp_all add: percentage_div)

theorem state_is_percentage_witness:
  "self_state (fst (update example_parse (Datetime 739008 720) (ok_response example_document)
       example_sensor)) = Some 50
   \<and> self_state (fst (update example_parse (Datetime 739020 720) (ok_response example_document)
       example_sensor)) = None"
proof -
  let ?fresh = "\<lparr>exposure_level = Some 3, exposure_last_update = Some (Datetime 739008 660),
      exposure_next_update = Some (Datetime 739009 660),
      exposure_region_name = Some (JStr ''Schleswig-Holstein und Hamburg''),
      exposure_partregion_name = Some (JStr ''Inseln und Marschen'')\<rparr>"
  let ?stale = "?fresh\<lparr>exposure_level := Some (- 1)\<rparr>"
  have t: "truthy example_document" by (simp add: example_document_def)
  have fresh: "try_block example_parse (Datetime 739008 720) (self_partregion_id example_sensor)
        (self_pollen_type example_sensor) example_document = (?fresh, None)"
    by (simp add: model_defs example_defs)
  have stale: "try_block example_parse (Datetime 739020 720) (self_partregion_id example_sensor)
        (self_pollen_type example_sensor) example_document = (?stale, None)"
    by (simp add: model_defs example_defs)
  have p: "py_round (of_int 3 / 6 * 100) = 50"
    using percentage_div [of 3] by (simp add: percentage_def)
  show ?thesis
    using state_is_percentage [where x = "ok_response example_document" and logged = "[]"
        and result = example_document and parse = example_parse
        and today = "Datetime 739008 720" and self = example_sensor and raised = None
        and exposure = ?fresh and level = 3]
      state_is_percentage [where x = "ok_response example_document" and logged = "[]"
        and result = example_document and parse = example_parse
        and today = "Datetime 739020 720" and self = example_sensor and raised = None
        and exposure = ?stale and level = "- 1"]
      example_fetch [of example_document] t fresh stale p
    by simp
qed

subsection \<open>The fetch\<close>




subsection \<open>The refresh\<close>

text \<open>
  Claim C8. The outcome of \<^verbatim>\<open>update\<close> (state, attributes, log and escaping exception) is a
  function of the fetched document, the configured sub-region and category, and the current
  date: it does not depend on the snapshot the sensor held before, running \<^verbatim>\<open>update\<close>
  again in the same world gives the same outcome, and the time of day does not matter.
\<close>

theorem update_deterministic:
  "update parse today x (self\<lparr>self_state := st, self_attributes := attrs\<rparr>)
     = update parse today x self
   \<and> update parse today x (fst (update parse today x self)) = update parse today x self
   \<and> update parse (Datetime (date today) t) x self = update parse today x self"
proof (intro conjI)
  show "update parse today x (self\<lparr>self_state := st, self_attributes := attrs\<rparr>)
     = update parse today x self"
    by (rule update_ignores_snapshot)
next
  obtain self' logged raised where u: "update parse today x self = (self', logged, raised)"
    by (cases "update parse today x self") auto
  have "self' = self\<lparr>self_state := self_state self', self_attributes := self_attributes self'\<rparr>"
    using update_keeps_configuration [OF u, where st = "self_state self'"
        and attrs = "self_attributes self'"] by simp
  then have "update parse today x self' = update parse today x self"
    using update_ignores_snapshot [where self = self and st = "self_state self'"
        and attrs = "self_attributes self'"]
    by simp
  with u show "update parse today x (fst (update parse today x self)) = update parse today x self"
    by simp
next
  have tb: "try_block parse (Datetime (date today) t) (self_partregion_id self)
          (self_pollen_type self)
      = try_block parse today (self_partregion_id self) (self_pollen_type self)"
    using try_block_time_of_day [where d = "date today" and t = t and t' = "time_of_day today"]
    by (intro ext) simp
  show "update parse (Datetime (date today) t) x self = update parse today x self"
    unfolding update_def tb by (rule refl)
qed

theorem update_deterministic_witness:
  "update example_parse (Datetime 739008 720) (ok_response example_document)
     (fst (update example_parse (Datetime 739008 720) (ok_response example_document)
        example_sensor))
   = update example_parse (Datetime 739008 720) (ok_response example_document) example_sensor
   \<and> update example_parse (Datetime 739008 720) (ok_response example_document)
        (example_sensor\<lparr>self_state := None, self_attributes := Map.empty\<rparr>)
     = update example_parse (Datetime 739008 720) (ok_response example_document) example_sensor"
  using update_deterministic [where parse = example_parse and today = "Datetime 739008 720"
      and x = "ok_response example_document" and self = example_sensor and st = None
      and attrs = Map.empty]
  by simp

text \<open>
  Claim C9. For a document that has both timestamps and the requested sub-region with its
  two names, and whose \<^verbatim>\<open>last_update\<close> date is more than two days before the current date
  or after it, \<^verbatim>\<open>update\<close> returns normally, leaves the state \<^verbatim>\<open>None\<close> and still sets
  all six attributes: the description "unknown level of exposure", the two timestamps of
  the document, the two names of the sub-region and the attribution.
\<close>

theorem update_stale_document:
  assumes "get_exposure x = Inr (logged, result)"
    and "2 < date today"
    and "getitem result ''last_update'' = Inr (JStr lu)" and "parse lu = Some last_update"
    and "getitem result ''next_update'' = Inr (JStr nu)" and "parse nu = Some next_update"
    and "getitem result ''content'' = Inr content"
    and "find_partregion content (self_partregion_id self) = Inr partregion"
    and "getitem partregion ''region_name'' = Inr region_name"
    and "getitem partregion ''partregion_name'' = Inr partregion_name"
    and "date last_update < date today - 2 \<or> date today < date last_update"
  shows "update parse today x self =
     (self\<lparr>self_state := None,
           self_attributes :=
             [ATTR_DESCRIPTION \<mapsto> PJson (JStr ''unknown level of exposure''),
              ATTR_LAST_UPDATE \<mapsto> PDatetime last_update,
              ATTR_NEXT_UPDATE \<mapsto> PDatetime next_update,
              ATTR_REGION_NAME \<mapsto> PJson region_name,
              ATTR_PARTREGION_NAME \<mapsto> PJson partregion_name,
              ATTR_ATTRIBUTION \<mapsto> PJson (JStr ATTRIBUTION)]\<rparr>,
      logged, None)"
proof -
  have t: "truthy result" using assms(3) by (rule getitem_truthy)
  have d: "get_description (- 1) = ''unknown level of exposure''"
    by (simp add: get_description_def description_mapping_def)
  note tb = try_block_stale [OF assms(2-11), of "self_pollen_type self"]
  show ?thesis
    by (simp add: update_def assms(1) t tb publish_complete d)
qed

theorem update_stale_document_witness:
  "update example_parse (Datetime 739020 720) (ok_response example_document) example_sensor
   = (example_sensor\<lparr>self_state := None,
        self_attributes :=
          [ATTR_DESCRIPTION \<mapsto> PJson (JStr ''unknown level of exposure''),
           ATTR_LAST_UPDATE \<mapsto> PDatetime (Datetime 739008 660),
           ATTR_NEXT_UPDATE \<mapsto> PDatetime (Datetime 739009 660),
           ATTR_REGION_NAME \<mapsto> PJson (JStr ''Schleswig-Holstein und Hamburg''),
           ATTR_PARTREGION_NAME \<mapsto> PJson (JStr ''Inseln und Marschen''),
           ATTR_ATTRIBUTION \<mapsto> PJson (JStr ATTRIBUTION)]\<rparr>,
      [], None)"
proof -
  have h1: "getitem example_document ''last_update'' = Inr (JStr ''2024-05-02 11:00 Uhr'')"
    and h2: "example_parse ''2024-05-02 11:00 Uhr'' = Some (Datetime 739008 660)"
    and h3: "getitem example_document ''next_update'' = Inr (JStr ''2024-05-03 11:00 Uhr'')"
    and h4: "example_parse ''2024-05-03 11:00 Uhr'' = Some (Datetime 739009 660)"
    and h5: "getitem example_document ''content'' = Inr (JList [example_region])"
    by (simp_all add: example_document_def example_parse_def)
  have h6: "find_partregion (JList [example_region]) (self_partregion_id example_sensor)
      = Inr example_region"
    by (simp add: find_partregion_def example_region_def example_sensor_def)
  have h7: "getitem example_region ''region_name'' = Inr (JStr ''Schleswig-Holstein und Hamburg'')"
    and h8: "getitem example_region ''partregion_name'' = Inr (JStr ''Inseln und Marschen'')"
    by (simp_all add: example_region_def)
  have h9: "2 < date (Datetime 739020 720)" by simp
  have h10: "date (Datetime 739008 660) < date (Datetime 739020 720) - 2
      \<or> date (Datetime 739020 720) < date (Datetime 739008 660)" by simp
  show ?thesis
    by (rule update_stale_document [OF example_fetch h9 h1 h2 h3 h4 h5 h6 h7 h8 h10])
qed

subsection \<open>Refreshes that raise\<close>

text \<open>
  Claim C1 says that a document without the requested sub-region makes \<^verbatim>\<open>update\<close>
  return normally with the state \<^verbatim>\<open>None\<close>. The code does not: on the sample feed, which
  holds sub-region 11 only, a sensor configured for sub-region 12 is left with the state
  \<^verbatim>\<open>None\<close> and no attribute, and \<^verbatim>\<open>update\<close> logs nothing and raises \<^verbatim>\<open>TypeError\<close>.
\<close>

theorem update_unknown_partregion_raises:
  "update example_parse (Datetime 739008 720) (ok_response example_document)
     (example_sensor\<lparr>self_partregion_id := 12\<rparr>)
   = (example_sensor\<lparr>self_partregion_id := 12, self_state := None,
        self_attributes := Map.empty\<rparr>,
      [], Some TypeError)"
  by (simp add: model_defs example_defs)

text \<open>
  Claim C10 says that a refresh in which a \<^verbatim>\<open>KeyError\<close> is caught ends with the state
  \<^verbatim>\<open>None\<close> and no attribute. The code does not when the key that is missing is
  \<^verbatim>\<open>region_name\<close>: the level and the timestamps are already in \<^verbatim>\<open>exposure\<close> when the
  error is caught and logged, so \<^verbatim>\<open>update\<close> sets the state to 50 and three attributes,
  and then raises \<^verbatim>\<open>KeyError\<close> itself on reading \<^verbatim>\<open>exposure["region_name"]\<close>.
\<close>

theorem update_missing_region_name:
  "update example_parse (Datetime 739008 720) (ok_response nameless_document) example_sensor
   = (example_sensor\<lparr>self_state := Some 50,
        self_attributes :=
          [ATTR_DESCRIPTION \<mapsto> PJson (JStr ''low to medium level of exposure''),
           ATTR_LAST_UPDATE \<mapsto> PDatetime (Datetime 739008 660),
           ATTR_NEXT_UPDATE \<mapsto> PDatetime (Datetime 739009 660)]\<rparr>,
      [ErroneousResult], Some KeyError)"
  by (simp add: model_defs example_defs nameless_region_def nameless_document_def Let_def
        percentage_div)

end
